theory Spec2Isabelle
  imports Main "HOL-Library.Char_ord" "HOL-Library.List_Lexorder"
begin

section \<open>Identifiers of the document store\<close>

text \<open>
  The models type their identifiers as \<open>mongoose.Types.ObjectId\<close>: twelve bytes, printed by
  \<open>toString\<close> as 24 hexadecimal digits in lower case. A request carries an identifier as
  a string; the store library casts it, accepting 24 hexadecimal digits of either case
  and rejecting every other string with a cast error (older releases of the library
  also took any string of twelve characters for the twelve bytes; the model follows the
  current behaviour). An \<open>objectId\<close> is represented here by the digits
  \<open>toString\<close> prints.
\<close>

datatype objectId = ObjectId string

fun toString :: "objectId \<Rightarrow> string" where
  "toString (ObjectId h) = h"

definition isHexDigit :: "char \<Rightarrow> bool" where
  "isHexDigit c = (c \<in> set ''0123456789abcdefABCDEF'')"

definition lowerHex :: "char \<Rightarrow> char" where
  "lowerHex c =
     (if c = CHR ''A'' then CHR ''a'' else if c = CHR ''B'' then CHR ''b''
      else if c = CHR ''C'' then CHR ''c'' else if c = CHR ''D'' then CHR ''d''
      else if c = CHR ''E'' then CHR ''e'' else if c = CHR ''F'' then CHR ''f''
      else c)"

definition castObjectId :: "string \<Rightarrow> objectId option" where
  "castObjectId s =
     (if length s = 24 \<and> list_all isHexDigit s then Some (ObjectId (map lowerHex s))
      else None)"

section \<open>Data model\<close>

text \<open>
  Strings are lists of characters read as the code points 0 to 255. The two string
  setters of the user schema: \<open>trim\<close> strips the white space of that range (tab to
  carriage return, space, no-break space) from both ends, \<open>lowercase\<close> maps the capital
  letters of that range to their small letters.
\<close>

definition isWhiteSpace :: "char \<Rightarrow> bool" where
  "isWhiteSpace c = (of_char c \<in> {9, 10, 11, 12, 13, 32, 160 :: nat})"

definition trim :: "string \<Rightarrow> string" where
  "trim s = rev (dropWhile isWhiteSpace (rev (dropWhile isWhiteSpace s)))"

definition toLowerCaseChar :: "char \<Rightarrow> char" where
  "toLowerCaseChar c =
     (let n = of_char c :: nat in
      if (65 \<le> n \<and> n \<le> 90) \<or> (192 \<le> n \<and> n \<le> 222 \<and> n \<noteq> 215) then char_of (n + 32)
      else c)"

definition toLowerCase :: "string \<Rightarrow> string" where
  "toLowerCase s = map toLowerCaseChar s"

text \<open>
  \<open>IUser\<close> and \<open>IComponent\<close> of the two model files. The identifier and the two
  timestamps exist on both, so these fields carry a prefix; times are milliseconds.
\<close>

record user =
  u_id :: objectId
  username :: string
  email :: string
  password :: string
  favorites :: "objectId list"
  u_createdAt :: int
  u_updatedAt :: int

record component =
  c_id :: objectId
  name :: string
  description :: string
  category :: string
  tags :: "string list"
  code :: string
  author :: objectId
  c_createdAt :: int
  c_updatedAt :: int

record db =
  users :: "user list"
  components :: "component list"

text \<open>
  A loaded or newly built user document: the field values, whether the document is new,
  and the paths assigned since it was loaded (what \<open>isModified\<close> reads).
\<close>

datatype path = PUsername | PEmail | PPassword | PFavorites

record userDoc =
  doc :: user
  isNew :: bool
  modifiedPaths :: "path list"

definition isModified :: "userDoc \<Rightarrow> path \<Rightarrow> bool" where
  "isModified d p = (p \<in> set (modifiedPaths d))"

text \<open>
  The user schema. A value assigned to \<open>username\<close> is trimmed, one assigned to
  \<open>email\<close> is trimmed and put in lower case; the store library passes the values of a
  query filter through the same setters. The validators: \<open>username\<close> is required, of 3
  to 30 characters; \<open>email\<close> is required; \<open>password\<close> is required, of at least 6
  characters. A required string is one that is not empty; of the validators of a path
  the first that fails is reported.
\<close>

definition setUsername :: "string \<Rightarrow> string" where
  "setUsername v = trim v"

definition setEmail :: "string \<Rightarrow> string" where
  "setEmail v = toLowerCase (trim v)"

datatype validatorKind = Required | MinLength | MaxLength

definition validate :: "user \<Rightarrow> (path \<times> validatorKind) list" where
  "validate u =
     (if username u = [] then [(PUsername, Required)]
      else if length (username u) < 3 then [(PUsername, MinLength)]
      else if 30 < length (username u) then [(PUsername, MaxLength)]
      else []) @
     (if email u = [] then [(PEmail, Required)] else []) @
     (if password u = [] then [(PPassword, Required)]
      else if length (password u) < 6 then [(PPassword, MinLength)]
      else [])"

section \<open>Errors and responses\<close>

text \<open>
  A thrown value as the error-handling middleware of \<open>index.ts\<close> reads it: an optional
  \<open>statusCode\<close> and a \<open>message\<close>. The errors raised by the libraries carry no
  \<open>statusCode\<close>; of their messages the model keeps what they report, not the wording:
  a failed cast of a value to an identifier for a model, the validators that failed, the
  types of the arguments bcrypt refused, an input that is no identifier, a document that
  is gone. None of these messages is empty.
\<close>

datatype errorMessage =
    Text string
  | CastToObjectIdFailed string string
  | ValidationFailed "(path \<times> validatorKind) list"
  | IllegalArguments string string
  | InvalidObjectId
  | NoDocumentFound

record error =
  statusCode :: "nat option"
  message :: errorMessage

definition castError :: "string \<Rightarrow> string \<Rightarrow> error" where
  "castError v model = \<lparr>statusCode = None, message = CastToObjectIdFailed v model\<rparr>"

definition validationError :: "(path \<times> validatorKind) list \<Rightarrow> error" where
  "validationError errs = \<lparr>statusCode = None, message = ValidationFailed errs\<rparr>"


definition bsonError :: error where
  "bsonError = \<lparr>statusCode = None, message = InvalidObjectId\<rparr>"

definition documentNotFoundError :: error where
  "documentNotFoundError = \<lparr>statusCode = None, message = NoDocumentFound\<rparr>"

text \<open>
  The message literals of the controllers, in the order: component does not exist, user
  does not exist, user name or email already in use, registration succeeded, email or
  password incorrect, internal server error; \<open>ErrorText\<close> is a message passed through
  from a thrown error.
\<close>

datatype msg =
    ComponentNotFound
  | UserNotFound
  | NameOrEmailTaken
  | RegisterOk
  | BadCredentials
  | InternalServerError
  | ErrorText errorMessage

text \<open>
  A row of a lean query result: the component, its populated author (identifier and
  user name only; null when the author is gone) and the \<open>isFavorite\<close> field, which is
  absent unless the controller sets it.
\<close>

record row =
  r_component :: component
  r_author :: "(objectId \<times> string) option"
  isFavorite :: "bool option"

datatype body =
    Message msg
  | Components "row list"
  | ComponentDoc row
  | Favorite bool
  | Session string objectId string string

datatype response = Response (status: nat) (body: body)

definition errorHandler :: "error \<Rightarrow> response" where
  "errorHandler err =
     Response (case statusCode err of None \<Rightarrow> 500 | Some c \<Rightarrow> if c = 0 then 500 else c)
              (Message (if message err = Text [] then InternalServerError else ErrorText (message err)))"

section \<open>External collaborators\<close>

text \<open>
  What the handlers take from outside: the salt \<open>bcrypt.genSalt\<close> draws, the hash and
  the comparison of bcrypt, the signing of a token, the identifier given to a new
  document, the clock, and the text index of the catalog (does a component match a
  search term).
\<close>

record env =
  genSalt :: string
  bcryptHash :: "string \<Rightarrow> string \<Rightarrow> error + string"
  bcryptCompare :: "string \<Rightarrow> string \<Rightarrow> bool"
  jwtSign :: "objectId \<Rightarrow> string"
  newObjectId :: objectId
  now :: int
  textSearch :: "string \<Rightarrow> component \<Rightarrow> bool"

section \<open>Store operations\<close>

definition loaded :: "user \<Rightarrow> userDoc" where
  "loaded u = \<lparr>doc = u, isNew = False, modifiedPaths = []\<rparr>"

definition User_findById :: "db \<Rightarrow> string \<Rightarrow> error + userDoc option" where
  "User_findById st i =
     (case castObjectId i of
        None \<Rightarrow> Inl (castError i ''User'')
      | Some oid \<Rightarrow> Inr (map_option loaded (find (\<lambda>u. u_id u = oid) (users st))))"

definition Component_findById :: "db \<Rightarrow> string \<Rightarrow> error + component option" where
  "Component_findById st i =
     (case castObjectId i of
        None \<Rightarrow> Inl (castError i ''Component'')
      | Some oid \<Rightarrow> Inr (find (\<lambda>c. c_id c = oid) (components st)))"

text \<open>The hook \<open>userSchema.pre('save')\<close>: the password is hashed only when modified.\<close>

definition preSave :: "env \<Rightarrow> userDoc \<Rightarrow> error + userDoc" where
  "preSave env d =
     (if \<not> isModified d PPassword then Inr d
      else (case bcryptHash env (password (doc d)) (genSalt env) of
              Inl e \<Rightarrow> Inl e
            | Inr h \<Rightarrow> Inr (d\<lparr>doc := (doc d)\<lparr>password := h\<rparr>\<rparr>)))"

text \<open>
  \<open>save\<close> validates the document against the schema, runs the hook, then inserts a new
  document or writes the modified paths of a loaded one to the stored document of the
  same identifier, with the update time. A document that fails validation is not
  written and the hook does not run. The unique indexes on user name and email are not
  modelled: the one insert of the handlers follows a lookup that excludes both values.
\<close>

definition applyDelta :: "userDoc \<Rightarrow> int \<Rightarrow> user \<Rightarrow> user" where
  "applyDelta d t u =
     u\<lparr>username := (if isModified d PUsername then username (doc d) else username u),
       email := (if isModified d PEmail then email (doc d) else email u),
       password := (if isModified d PPassword then password (doc d) else password u),
       favorites := (if isModified d PFavorites then favorites (doc d) else favorites u),
       u_updatedAt := t\<rparr>"

fun updateOne :: "('a \<Rightarrow> bool) \<Rightarrow> ('a \<Rightarrow> 'a) \<Rightarrow> 'a list \<Rightarrow> 'a list option" where
  "updateOne P f [] = None"
| "updateOne P f (x # xs) =
     (if P x then Some (f x # xs) else map_option ((#) x) (updateOne P f xs))"

definition save :: "env \<Rightarrow> db \<Rightarrow> userDoc \<Rightarrow> error + db" where
  "save env st d0 =
     (if validate (doc d0) \<noteq> [] then Inl (validationError (validate (doc d0)))
      else (case preSave env d0 of
              Inl e \<Rightarrow> Inl e
            | Inr d \<Rightarrow>
                if isNew d
                then Inr (st\<lparr>users := users st @ [(doc d)\<lparr>u_createdAt := now env, u_updatedAt := now env\<rparr>]\<rparr>)
                else if modifiedPaths d = [] then Inr st
                else (case updateOne (\<lambda>u. u_id u = u_id (doc d)) (applyDelta d (now env)) (users st) of
                        None \<Rightarrow> Inl documentNotFoundError
                      | Some us \<Rightarrow> Inr (st\<lparr>users := us\<rparr>))))"

section \<open>Favorites toggle\<close>

text \<open>\<open>Array.prototype.findIndex\<close>: the first index whose element satisfies the test, or -1.\<close>

fun findIndex :: "('a \<Rightarrow> bool) \<Rightarrow> 'a list \<Rightarrow> int" where
  "findIndex P [] = - 1"
| "findIndex P (x # xs) =
     (if P x then 0 else (let i = findIndex P xs in if i = - 1 then - 1 else i + 1))"

text \<open>\<open>favorites.push(x)\<close> and \<open>favorites.splice(index, 1)\<close> on a document; both mark the path.\<close>

definition markModified :: "path \<Rightarrow> userDoc \<Rightarrow> userDoc" where
  "markModified p d = (if isModified d p then d else d\<lparr>modifiedPaths := modifiedPaths d @ [p]\<rparr>)"

definition push :: "userDoc \<Rightarrow> objectId \<Rightarrow> userDoc" where
  "push d x = markModified PFavorites (d\<lparr>doc := (doc d)\<lparr>favorites := favorites (doc d) @ [x]\<rparr>\<rparr>)"

definition splice :: "userDoc \<Rightarrow> int \<Rightarrow> userDoc" where
  "splice d i =
     markModified PFavorites
       (d\<lparr>doc := (doc d)\<lparr>favorites := take (nat i) (favorites (doc d)) @ drop (nat i + 1) (favorites (doc d))\<rparr>\<rparr>)"

text \<open>
  \<open>toggleFavorite\<close> of the component controller, on the path parameter \<open>id\<close> and the
  caller identity \<open>userId\<close> that the mandatory gate attached.
\<close>

definition toggleFavorite :: "env \<Rightarrow> db \<Rightarrow> string \<Rightarrow> string \<Rightarrow> db \<times> response" where
  "toggleFavorite env st i userId =
     (case Component_findById st i of
        Inl e \<Rightarrow> (st, errorHandler e)
      | Inr None \<Rightarrow> (st, Response 404 (Message ComponentNotFound))
      | Inr (Some c) \<Rightarrow>
          (case User_findById st userId of
             Inl e \<Rightarrow> (st, errorHandler e)
           | Inr None \<Rightarrow> (st, Response 404 (Message UserNotFound))
           | Inr (Some user) \<Rightarrow>
               (let index = findIndex (\<lambda>favId. toString favId = i) (favorites (doc user)) in
                case (if index = - 1
                      then (case castObjectId i of
                              None \<Rightarrow> Inl bsonError
                            | Some oid \<Rightarrow> Inr (push user oid))
                      else Inr (splice user index)) of
                  Inl e \<Rightarrow> (st, errorHandler e)
                | Inr user' \<Rightarrow>
                    (case save env st user' of
                       Inl e \<Rightarrow> (st, errorHandler e)
                     | Inr st' \<Rightarrow> (st', Response 200 (Favorite (index = - 1)))))))"

section \<open>Access-control gate\<close>

text \<open>\<open>String.prototype.split\<close> on a one-character separator.\<close>

fun split :: "char \<Rightarrow> string \<Rightarrow> string list" where
  "split c [] = [[]]"
| "split c (x # xs) =
     (if x = c then [] # split c xs
      else (case split c xs of [] \<Rightarrow> [[x]] | p # ps \<Rightarrow> (x # p) # ps))"

text \<open>JavaScript truthiness of an optional string: present and not empty.\<close>

definition truthy :: "string option \<Rightarrow> bool" where
  "truthy s = (case s of None \<Rightarrow> False | Some v \<Rightarrow> v \<noteq> [])"

text \<open>\<open>authHeader && authHeader.split(" ")[1]\<close>, as far as its truthiness and value matter.\<close>

definition bearerToken :: "string option \<Rightarrow> string option" where
  "bearerToken authHeader =
     (if truthy authHeader
      then (case split CHR '' '' (the authHeader) of _ # t # _ \<Rightarrow> Some t | _ \<Rightarrow> None)
      else None)"

text \<open>
  The two modes of the gate. \<open>verify\<close> stands for \<open>jwt.verify\<close> with the configured
  secret: the \<open>id\<close> of the decoded payload, or None where it throws. The mandatory
  gate answers 401 (no token given, token invalid) or attaches the identity; the optional
  gate attaches the identity or nothing.
\<close>

datatype gateMsg = NoToken | InvalidToken

definition authMiddleware :: "(string \<Rightarrow> string option) \<Rightarrow> string option \<Rightarrow> (nat \<times> gateMsg) + string" where
  "authMiddleware verify authHeader =
     (let token = bearerToken authHeader in
      if \<not> truthy token then Inl (401, NoToken)
      else (case verify (the token) of None \<Rightarrow> Inl (401, InvalidToken) | Some uid \<Rightarrow> Inr uid))"

definition optionalAuthMiddleware :: "(string \<Rightarrow> string option) \<Rightarrow> string option \<Rightarrow> string option" where
  "optionalAuthMiddleware verify authHeader =
     (let token = bearerToken authHeader in
      if \<not> truthy token then None
      else (case verify (the token) of None \<Rightarrow> None | Some uid \<Rightarrow> Some uid))"

section \<open>Catalog queries\<close>

text \<open>
  The query string of the list request: \<open>search\<close>, \<open>category\<close>, \<open>sort\<close> and
  \<open>favorites\<close>, each absent or a string.
\<close>

record listQuery =
  q_search :: "string option"
  q_category :: "string option"
  q_sort :: "string option"
  q_favorites :: "string option"

text \<open>The filter object \<open>query\<close> the controller builds: \<open>$text\<close>, \<open>category\<close>, \<open>_id: {$in}\<close>.\<close>

record query =
  f_text :: "string option"
  f_category :: "string option"
  f_id_in :: "objectId list option"

datatype sortOption = CreatedAtDescending | NameAscending

definition matches :: "env \<Rightarrow> query \<Rightarrow> component \<Rightarrow> bool" where
  "matches env q c =
     ((case f_text q of None \<Rightarrow> True | Some s \<Rightarrow> textSearch env s c) \<and>
      (case f_category q of None \<Rightarrow> True | Some k \<Rightarrow> category c = k) \<and>
      (case f_id_in q of None \<Rightarrow> True | Some ids \<Rightarrow> c_id c \<in> set ids))"

text \<open>
  \<open>Component.find(query).sort(sortOption)\<close>: strings compare by their code units, times
  numerically.
\<close>

definition Component_find :: "env \<Rightarrow> db \<Rightarrow> query \<Rightarrow> sortOption \<Rightarrow> component list" where
  "Component_find env st q so =
     (case so of
        NameAscending \<Rightarrow> sort_key name (filter (matches env q) (components st))
      | CreatedAtDescending \<Rightarrow> sort_key (\<lambda>c. - c_createdAt c) (filter (matches env q) (components st)))"

text \<open>\<open>.populate('author', 'username').lean()\<close>\<close>

definition populate :: "db \<Rightarrow> component \<Rightarrow> row" where
  "populate st c =
     \<lparr>r_component = c,
      r_author = map_option (\<lambda>u. (u_id u, username u)) (find (\<lambda>u. u_id u = author c) (users st)),
      isFavorite = None\<rparr>"

text \<open>Lines 33 to 59 of \<open>getComponents\<close>: sort option, query, annotation, response.\<close>

definition listComponents :: "env \<Rightarrow> db \<Rightarrow> listQuery \<Rightarrow> string option \<Rightarrow> query \<Rightarrow> response" where
  "listComponents env st q userId query =
     (let sortOption =
            (if q_sort q = Some ''popular'' then CreatedAtDescending
             else if q_sort q = Some ''name'' then NameAscending
             else CreatedAtDescending);
          rows = map (populate st) (Component_find env st query sortOption)
      in if truthy userId
         then (case User_findById st (the userId) of
                 Inl e \<Rightarrow> errorHandler e
               | Inr None \<Rightarrow> Response 200 (Components rows)
               | Inr (Some user) \<Rightarrow>
                   (let favs = map toString (favorites (doc user)) in
                    Response 200
                      (Components
                         (map (\<lambda>r. r\<lparr>isFavorite := Some (toString (c_id (r_component r)) \<in> set favs)\<rparr>)
                              rows))))
         else Response 200 (Components rows))"

definition getComponents :: "env \<Rightarrow> db \<Rightarrow> listQuery \<Rightarrow> string option \<Rightarrow> response" where
  "getComponents env st q userId =
     (let query0 = \<lparr>f_text = None, f_category = None, f_id_in = None\<rparr>;
          query1 = (if truthy (q_search q) then query0\<lparr>f_text := q_search q\<rparr> else query0);
          query2 = (if truthy (q_category q) then query1\<lparr>f_category := q_category q\<rparr> else query1)
      in if q_favorites q = Some ''true'' \<and> truthy userId
         then (case User_findById st (the userId) of
                 Inl e \<Rightarrow> errorHandler e
               | Inr None \<Rightarrow> Response 404 (Message UserNotFound)
               | Inr (Some user) \<Rightarrow>
                   listComponents env st q userId (query2\<lparr>f_id_in := Some (favorites (doc user))\<rparr>))
         else listComponents env st q userId query2)"

definition getComponent :: "env \<Rightarrow> db \<Rightarrow> string \<Rightarrow> string option \<Rightarrow> response" where
  "getComponent env st i userId =
     (case Component_findById st i of
        Inl e \<Rightarrow> errorHandler e
      | Inr None \<Rightarrow> Response 404 (Message ComponentNotFound)
      | Inr (Some c) \<Rightarrow>
          (let r = populate st c in
           if truthy userId
           then (case User_findById st (the userId) of
                   Inl e \<Rightarrow> errorHandler e
                 | Inr None \<Rightarrow> Response 200 (ComponentDoc r)
                 | Inr (Some user) \<Rightarrow>
                     Response 200
                       (ComponentDoc
                          (r\<lparr>isFavorite := Some (list_ex (\<lambda>favId. toString favId = i) (favorites (doc user)))\<rparr>)))
           else Response 200 (ComponentDoc r)))"

section \<open>Registration and login\<close>

text \<open>
  \<open>new User({username, email, password})\<close>: a new document with the three paths set,
  each value through the setters of its path.
\<close>

definition newUser :: "env \<Rightarrow> string \<Rightarrow> string \<Rightarrow> string \<Rightarrow> userDoc" where
  "newUser env n e p =
     \<lparr>doc = \<lparr>u_id = newObjectId env, username = setUsername n, email = setEmail e, password = p,
             favorites = [], u_createdAt = now env, u_updatedAt = now env\<rparr>,
      isNew = True,
      modifiedPaths = [PUsername, PEmail, PPassword]\<rparr>"

text \<open>
  \<open>register\<close>: the existence query \<open>$or: [{email}, {username}]\<close> compares the stored
  values with the values of the request as the setters leave them.
\<close>

definition register :: "env \<Rightarrow> db \<Rightarrow> string \<Rightarrow> string \<Rightarrow> string \<Rightarrow> db \<times> response" where
  "register env st n e p =
     (case find (\<lambda>u. email u = setEmail e \<or> username u = setUsername n) (users st) of
        Some existingUser \<Rightarrow> (st, Response 400 (Message NameOrEmailTaken))
      | None \<Rightarrow>
          (case save env st (newUser env n e p) of
             Inl err \<Rightarrow> (st, errorHandler err)
           | Inr st' \<Rightarrow> (st', Response 201 (Message RegisterOk))))"





text \<open>
  A store is normalised when every stored user name and email is as the setters leave
  it: what every document built by \<open>new User\<close> has.
\<close>

definition normalised :: "db \<Rightarrow> bool" where
  "normalised st =
     list_all (\<lambda>u. username u = setUsername (username u) \<and> email u = setEmail (email u)) (users st)"

section \<open>A concrete store\<close>

text \<open>
  The scenario of the specification: the user alice, her component \<open>Btn\<close>, and a second
  component; a hash that prefixes the salt; a text index that matches on the name.
\<close>

definition idA :: string where
  "idA = ''aaaaaaaaaaaaaaaaaaaaaaaa''"

definition idA_upper :: string where
  "idA_upper = ''AAAAAAAAAAAAAAAAAAAAAAAA''"

definition idB :: string where
  "idB = ''bbbbbbbbbbbbbbbbbbbbbbbb''"

definition idC :: string where
  "idC = ''cccccccccccccccccccccccc''"

definition idU :: string where
  "idU = ''0123456789abcdef01234567''"

definition env0 :: env where
  "env0 =
     \<lparr>genSalt = ''salt'',
      bcryptHash = (\<lambda>p s. Inr (s @ p)),
      bcryptCompare = (\<lambda>p h. h = ''salt'' @ p),
      jwtSign = toString,
      newObjectId = ObjectId idC,
      now = 100,
      textSearch = (\<lambda>s c. s = name c)\<rparr>"

definition alice :: user where
  "alice =
     \<lparr>u_id = ObjectId idU, username = ''alice'', email = ''alice@x.com'',
      password = ''saltsecret1'', favorites = [], u_createdAt = 1, u_updatedAt = 1\<rparr>"

definition btn :: component where
  "btn =
     \<lparr>c_id = ObjectId idA, name = ''Btn'', description = ''A nice button component'',
      category = ''buttons'', tags = [''ui''], code = ''<button/>'', author = ObjectId idU,
      c_createdAt = 2, c_updatedAt = 2\<rparr>"

definition card :: component where
  "card =
     \<lparr>c_id = ObjectId idB, name = ''Card'', description = ''A plain card component'',
      category = ''cards'', tags = [], code = ''<div/>'', author = ObjectId idU,
      c_createdAt = 3, c_updatedAt = 3\<rparr>"

definition db0 :: db where
  "db0 = \<lparr>users = [alice], components = [btn, card]\<rparr>"

text \<open>The same store after alice has made \<open>Btn\<close> a favorite.\<close>

definition db1 :: db where
  "db1 = \<lparr>users = [alice\<lparr>favorites := [ObjectId idA]\<rparr>], components = [btn, card]\<rparr>"

text \<open>
  The first store after alice has renamed herself \<open>ab\<close>: the update route of the user
  controller writes with \<open>findByIdAndUpdate\<close>, which runs no validator, and its route
  has no validation step.
\<close>

definition db2 :: db where
  "db2 = \<lparr>users = [alice\<lparr>username := ''ab''\<rparr>], components = [btn, card]\<rparr>"

definition anyQuery :: listQuery where
  "anyQuery = \<lparr>q_search = None, q_category = None, q_sort = None, q_favorites = None\<rparr>"

section \<open>Auxiliary facts\<close>

lemma toString_eq_iff: "toString a = toString b \<longleftrightarrow> a = b"
  by (cases a; cases b) simp

lemma findIndex_ge: "- 1 \<le> findIndex P xs"
  by (induction xs) (auto simp: Let_def)

lemma findIndex_none_iff: "findIndex P xs = - 1 \<longleftrightarrow> (\<forall>x \<in> set xs. \<not> P x)"
proof (induction xs)
  case Nil
  show ?case by simp
next
  case (Cons x xs)
  have "- 1 \<le> findIndex P xs" by (rule findIndex_ge)
  with Cons show ?case by (auto simp: Let_def)
qed

lemma splice_first_occurrence:
  "x \<in> set xs \<Longrightarrow>
   take (nat (findIndex (\<lambda>y. y = x) xs)) xs @ drop (nat (findIndex (\<lambda>y. y = x) xs) + 1) xs = remove1 x xs"
proof (induction xs)
  case Nil
  then show ?case by simp
next
  case (Cons a xs)
  show ?case
  proof (cases "a = x")
    case True
    then show ?thesis by simp
  next
    case False
    with Cons.prems have mem: "x \<in> set xs" by simp
    then have ne: "findIndex (\<lambda>y. y = x) xs \<noteq> - 1" by (simp add: findIndex_none_iff)
    with findIndex_ge [of "\<lambda>y. y = x" xs] have nonneg: "0 \<le> findIndex (\<lambda>y. y = x) xs" by linarith
    then have "nat (findIndex (\<lambda>y. y = x) xs + 1) = Suc (nat (findIndex (\<lambda>y. y = x) xs))" by linarith
    with False ne Cons.IH [OF mem] show ?thesis by (simp add: Let_def)
  qed
qed

lemma updateOne_find:
  "find P xs = Some x \<Longrightarrow> (\<And>y. P y \<Longrightarrow> P (f y)) \<Longrightarrow>
   \<exists>ys. updateOne P f xs = Some ys \<and> find P ys = Some (f x)"
  by (induction xs) (auto split: if_splits)

lemma updateOne_map:
  "updateOne P f xs = Some ys \<Longrightarrow> (\<And>y. g (f y) = g y) \<Longrightarrow> map g ys = map g xs"
  by (induction xs arbitrary: ys) (auto split: if_splits)

lemma updateOne_none: "updateOne P f xs = None \<longleftrightarrow> find P xs = None"
  by (induction xs) auto

lemma validate_favorites: "validate (u\<lparr>favorites := f\<rparr>) = validate u"
  by (simp add: validate_def)

lemma validate_updatedAt: "validate (u\<lparr>u_updatedAt := t\<rparr>) = validate u"
  by (simp add: validate_def)

lemma save_invalid:
  "validate (doc d) \<noteq> [] \<Longrightarrow> save env st d = Inl (validationError (validate (doc d)))"
  by (simp add: save_def)

lemma save_valid:
  "validate (doc d0) = [] \<Longrightarrow>
   save env st d0 =
     (case preSave env d0 of
        Inl e \<Rightarrow> Inl e
      | Inr d \<Rightarrow>
          if isNew d
          then Inr (st\<lparr>users := users st @ [(doc d)\<lparr>u_createdAt := now env, u_updatedAt := now env\<rparr>]\<rparr>)
          else if modifiedPaths d = [] then Inr st
          else (case updateOne (\<lambda>u. u_id u = u_id (doc d)) (applyDelta d (now env)) (users st) of
                  None \<Rightarrow> Inl documentNotFoundError
                | Some us \<Rightarrow> Inr (st\<lparr>users := us\<rparr>)))"
  by (simp add: save_def)

lemma save_Inr_valid: "save env st d = Inr st' \<Longrightarrow> validate (doc d) = []"
  by (auto simp: save_def split: if_splits)

lemma save_favorites_only:
  "\<not> isNew d \<Longrightarrow> modifiedPaths d = [PFavorites] \<Longrightarrow> validate (doc d) = [] \<Longrightarrow>
   save env st d =
     (case updateOne (\<lambda>u. u_id u = u_id (doc d)) (applyDelta d (now env)) (users st) of
        None \<Rightarrow> Inl documentNotFoundError
      | Some us \<Rightarrow> Inr (st\<lparr>users := us\<rparr>))"
  by (simp add: save_valid preSave_def isModified_def)

lemma doc_loaded: "doc (loaded u) = u"
  by (simp add: loaded_def)

lemma push_loaded:
  "push (loaded u) x = \<lparr>doc = u\<lparr>favorites := favorites u @ [x]\<rparr>, isNew = False, modifiedPaths = [PFavorites]\<rparr>"
  by (simp add: push_def loaded_def markModified_def isModified_def)

lemma splice_loaded:
  "splice (loaded u) k =
     \<lparr>doc = u\<lparr>favorites := take (nat k) (favorites u) @ drop (nat k + 1) (favorites u)\<rparr>,
      isNew = False, modifiedPaths = [PFavorites]\<rparr>"
  by (simp add: splice_def loaded_def markModified_def isModified_def)

lemma applyDelta_favorites_only:
  "modifiedPaths d = [PFavorites] \<Longrightarrow>
   applyDelta d t u = u\<lparr>favorites := favorites (doc d), u_updatedAt := t\<rparr>"
  by (simp add: applyDelta_def isModified_def)

text \<open>The toggle on an identifier in canonical form, for an existing component and user.\<close>

lemma toggleFavorite_canonical:
  assumes i: "castObjectId i = Some oid" "toString oid = i"
      and uid: "castObjectId userId = Some uoid"
      and c: "find (\<lambda>c. c_id c = oid) (components st) = Some c"
      and u: "find (\<lambda>u. u_id u = uoid) (users st) = Some u"
      and v: "validate u = []"
  shows "\<exists>us. toggleFavorite env st i userId
               = (st\<lparr>users := us\<rparr>, Response 200 (Favorite (oid \<notin> set (favorites u)))) \<and>
              find (\<lambda>u. u_id u = uoid) us
               = Some (u\<lparr>favorites := (if oid \<in> set (favorites u) then remove1 oid (favorites u)
                                        else favorites u @ [oid]),
                         u_updatedAt := now env\<rparr>)"
proof -
  have P: "(\<lambda>favId. toString favId = i) = (\<lambda>y. y = oid)"
    using i(2) by (auto simp: toString_eq_iff [symmetric])
  have uu: "u_id u = uoid" using u by (auto simp: find_Some_iff)
  show ?thesis
  proof (cases "oid \<in> set (favorites u)")
    case True
    then have ne: "findIndex (\<lambda>y. y = oid) (favorites u) \<noteq> - 1" by (simp add: findIndex_none_iff)
    let ?d = "splice (loaded u) (findIndex (\<lambda>y. y = oid) (favorites u))"
    have d: "doc ?d = u\<lparr>favorites := remove1 oid (favorites u)\<rparr>" "\<not> isNew ?d" "modifiedPaths ?d = [PFavorites]"
      using splice_first_occurrence [OF True] by (simp_all add: splice_loaded)
    have ad: "applyDelta ?d (now env) = (\<lambda>v. v\<lparr>favorites := remove1 oid (favorites u), u_updatedAt := now env\<rparr>)"
      using d by (auto simp: applyDelta_favorites_only)
    from updateOne_find [OF u, of "\<lambda>v. v\<lparr>favorites := remove1 oid (favorites u), u_updatedAt := now env\<rparr>"]
    obtain us where us: "updateOne (\<lambda>u. u_id u = uoid) (\<lambda>v. v\<lparr>favorites := remove1 oid (favorites u), u_updatedAt := now env\<rparr>) (users st) = Some us"
      "find (\<lambda>u. u_id u = uoid) us = Some (u\<lparr>favorites := remove1 oid (favorites u), u_updatedAt := now env\<rparr>)"
      by auto
    have sv: "save env st ?d = Inr (st\<lparr>users := us\<rparr>)"
      using d us(1) uu ad v by (simp add: save_favorites_only validate_favorites)
    have "toggleFavorite env st i userId = (st\<lparr>users := us\<rparr>, Response 200 (Favorite False))"
      using i uid c u ne sv
      by (simp add: toggleFavorite_def Component_findById_def User_findById_def P Let_def doc_loaded)
    with True us(2) show ?thesis by auto
  next
    case False
    then have eq: "findIndex (\<lambda>y. y = oid) (favorites u) = - 1" by (auto simp: findIndex_none_iff)
    let ?d = "push (loaded u) oid"
    have d: "doc ?d = u\<lparr>favorites := favorites u @ [oid]\<rparr>" "\<not> isNew ?d" "modifiedPaths ?d = [PFavorites]"
      by (simp_all add: push_loaded)
    have ad: "applyDelta ?d (now env) = (\<lambda>v. v\<lparr>favorites := favorites u @ [oid], u_updatedAt := now env\<rparr>)"
      using d by (auto simp: applyDelta_favorites_only)
    from updateOne_find [OF u, of "\<lambda>v. v\<lparr>favorites := favorites u @ [oid], u_updatedAt := now env\<rparr>"]
    obtain us where us: "updateOne (\<lambda>u. u_id u = uoid) (\<lambda>v. v\<lparr>favorites := favorites u @ [oid], u_updatedAt := now env\<rparr>) (users st) = Some us"
      "find (\<lambda>u. u_id u = uoid) us = Some (u\<lparr>favorites := favorites u @ [oid], u_updatedAt := now env\<rparr>)"
      by auto
    have sv: "save env st ?d = Inr (st\<lparr>users := us\<rparr>)"
      using d us(1) uu ad v by (simp add: save_favorites_only validate_favorites)
    have "toggleFavorite env st i userId = (st\<lparr>users := us\<rparr>, Response 200 (Favorite True))"
      using i uid c u eq sv
      by (simp add: toggleFavorite_def Component_findById_def User_findById_def P Let_def doc_loaded)
    with False us(2) show ?thesis by auto
  qed
qed

lemma castObjectId_nonempty: "castObjectId s = Some oid \<Longrightarrow> s \<noteq> []"
  by (auto simp: castObjectId_def)

lemma save_unmodified_password:
  assumes "\<not> isModified d PPassword" and "save env st d = Inr st'"
  shows "map password (users st') = map password (users st) @ (if isNew d then [password (doc d)] else [])"
proof -
  have pw: "\<And>y. password (applyDelta d (now env) y) = password y"
    using assms(1) by (simp add: applyDelta_def)
  note sv = save_valid [OF save_Inr_valid [OF assms(2)]]
  from assms show ?thesis
    by (auto simp: sv preSave_def split: if_splits option.splits dest: updateOne_map [where g = password, OF _ pw])
qed

lemma save_modified_password:
  assumes "isModified d PPassword" and "save env st d = Inr st'"
  shows "\<exists>h. bcryptHash env (password (doc d)) (genSalt env) = Inr h \<and>
             (if isNew d then map password (users st') = map password (users st) @ [h]
              else (\<exists>u'. find (\<lambda>u. u_id u = u_id (doc d)) (users st') = Some u' \<and> password u' = h))"
proof -
  note sv = save_valid [OF save_Inr_valid [OF assms(2)]]
  from assms obtain h where h: "bcryptHash env (password (doc d)) (genSalt env) = Inr h"
    by (auto simp: sv preSave_def split: sum.splits)
  let ?d = "d\<lparr>doc := (doc d)\<lparr>password := h\<rparr>\<rparr>"
  have ps: "preSave env d = Inr ?d" using assms(1) h by (simp add: preSave_def)
  show ?thesis
  proof (cases "isNew d")
    case True
    with assms(2) ps h show ?thesis by (auto simp: sv)
  next
    case False
    from assms(1) have ne: "modifiedPaths d \<noteq> []" by (auto simp: isModified_def)
    from assms(2) ps False ne obtain us where
      us: "updateOne (\<lambda>u. u_id u = u_id (doc d)) (applyDelta ?d (now env)) (users st) = Some us" "st' = st\<lparr>users := us\<rparr>"
      by (auto simp: sv split: option.splits)
    then obtain x where x: "find (\<lambda>u. u_id u = u_id (doc d)) (users st) = Some x"
      using updateOne_none [of "\<lambda>u. u_id u = u_id (doc d)" "applyDelta ?d (now env)" "users st"] by fastforce
    from updateOne_find [OF x, of "applyDelta ?d (now env)"] us(1)
    have "find (\<lambda>u. u_id u = u_id (doc d)) us = Some (applyDelta ?d (now env) x)"
      by (auto simp: applyDelta_def)
    moreover have "password (applyDelta ?d (now env) x) = h"
      using assms(1) by (simp add: applyDelta_def isModified_def)
    ultimately show ?thesis using h False us(2) by auto
  qed
qed

lemma toggleFavorite_password_frame:
  assumes "toggleFavorite env st i userId = (st', r)"
  shows "map password (users st') = map password (users st)"
proof -
  have a: "\<And>u x st'. save env st (push (loaded u) x) = Inr st' \<Longrightarrow> map password (users st') = map password (users st)"
    using save_unmodified_password [of "push (loaded _) _" env st] by (simp add: push_loaded isModified_def)
  have b: "\<And>u k st'. save env st (splice (loaded u) k) = Inr st' \<Longrightarrow> map password (users st') = map password (users st)"
    using save_unmodified_password [of "splice (loaded _) _" env st] by (simp add: splice_loaded isModified_def)
  from assms show ?thesis
    by (auto simp: toggleFavorite_def Let_def User_findById_def split: sum.splits option.splits if_splits dest: a b)
qed

lemma listComponents_rows:
  assumes "listComponents env st q userId query = Response 200 (Components rows)"
  shows "map r_component rows
         = Component_find env st query (if q_sort q = Some ''name'' then NameAscending else CreatedAtDescending)"
  using assms
  by (auto simp: listComponents_def Let_def errorHandler_def populate_def o_def
           split: if_splits sum.splits option.splits)

lemma getComponents_cases:
  "(\<exists>query. getComponents env st q userId = listComponents env st q userId query) \<or>
   (\<exists>s m. getComponents env st q userId = Response s (Message m))"
proof -
  define query0 where "query0 = \<lparr>f_text = None, f_category = None, f_id_in = None\<rparr>"
  define query1 where "query1 = (if truthy (q_search q) then query0\<lparr>f_text := q_search q\<rparr> else query0)"
  define query2 where "query2 = (if truthy (q_category q) then query1\<lparr>f_category := q_category q\<rparr> else query1)"
  have eq: "getComponents env st q userId =
     (if q_favorites q = Some ''true'' \<and> truthy userId
      then (case User_findById st (the userId) of
              Inl e \<Rightarrow> errorHandler e
            | Inr None \<Rightarrow> Response 404 (Message UserNotFound)
            | Inr (Some user) \<Rightarrow>
                listComponents env st q userId (query2\<lparr>f_id_in := Some (favorites (doc user))\<rparr>))
      else listComponents env st q userId query2)"
    unfolding getComponents_def Let_def query0_def query1_def query2_def ..
  show ?thesis
    unfolding eq by (auto simp: errorHandler_def split: sum.splits option.splits)
qed

lemma getComponents_rows:
  assumes "getComponents env st q userId = Response 200 (Components rows)"
  shows "\<exists>query. map r_component rows
         = Component_find env st query (if q_sort q = Some ''name'' then NameAscending else CreatedAtDescending)"
proof -
  from getComponents_cases [of env st q userId] assms
  obtain query where "listComponents env st q userId query = Response 200 (Components rows)"
    by auto
  from listComponents_rows [OF this] show ?thesis by blast
qed

lemma sorted_negated: "sorted (map (\<lambda>c. - f c) xs) \<Longrightarrow> sorted_wrt (\<lambda>a b. b \<le> a) (map (f :: 'a \<Rightarrow> int) xs)"
  by (simp add: sorted_map sorted_wrt_map)

text \<open>
  With the target id in canonical form, the toggle keeps favorites that are free of
  duplicates free of them, and two toggles in sequence restore the set of favorites.
\<close>

lemma toggleFavorite_canonical_distinct:
  assumes "castObjectId i = Some oid" "toString oid = i" "castObjectId userId = Some uoid"
      and "find (\<lambda>c. c_id c = oid) (components st) = Some c"
      and "find (\<lambda>u. u_id u = uoid) (users st) = Some u"
      and "distinct (favorites u)"
      and "validate u = []"
  shows "\<exists>st' r u'. toggleFavorite env st i userId = (st', r) \<and>
           find (\<lambda>u. u_id u = uoid) (users st') = Some u' \<and> distinct (favorites u')"
proof -
  from toggleFavorite_canonical [OF assms(1-5) assms(7), of env] obtain us where
    "toggleFavorite env st i userId = (st\<lparr>users := us\<rparr>, Response 200 (Favorite (oid \<notin> set (favorites u))))"
    "find (\<lambda>u. u_id u = uoid) us
           = Some (u\<lparr>favorites := (if oid \<in> set (favorites u) then remove1 oid (favorites u)
                                    else favorites u @ [oid]),
                     u_updatedAt := now env\<rparr>)"
    by blast
  with assms(6) show ?thesis by auto
qed

lemma toggleFavorite_canonical_twice:
  assumes "castObjectId i = Some oid" "toString oid = i" "castObjectId userId = Some uoid"
      and "find (\<lambda>c. c_id c = oid) (components st) = Some c"
      and "find (\<lambda>u. u_id u = uoid) (users st) = Some u"
      and "distinct (favorites u)"
      and "validate u = []"
  shows "\<exists>st1 r1 st2 r2 u2.
           toggleFavorite env st i userId = (st1, r1) \<and> toggleFavorite env st1 i userId = (st2, r2) \<and>
           find (\<lambda>u. u_id u = uoid) (users st2) = Some u2 \<and>
           set (favorites u2) = set (favorites u) \<and> distinct (favorites u2)"
proof -
  let ?f1 = "if oid \<in> set (favorites u) then remove1 oid (favorites u) else favorites u @ [oid]"
  let ?u1 = "u\<lparr>favorites := ?f1, u_updatedAt := now env\<rparr>"
  from toggleFavorite_canonical [OF assms(1-5) assms(7), of env] obtain us1 where
    t1: "toggleFavorite env st i userId = (st\<lparr>users := us1\<rparr>, Response 200 (Favorite (oid \<notin> set (favorites u))))"
    and f1: "find (\<lambda>u. u_id u = uoid) us1 = Some ?u1"
    by blast
  let ?st1 = "st\<lparr>users := us1\<rparr>"
  have c1: "find (\<lambda>c. c_id c = oid) (components ?st1) = Some c" using assms(4) by simp
  have u1: "find (\<lambda>u. u_id u = uoid) (users ?st1) = Some ?u1" using f1 by simp
  let ?f2 = "if oid \<in> set (favorites ?u1) then remove1 oid (favorites ?u1) else favorites ?u1 @ [oid]"
  have v1: "validate ?u1 = []" using assms(7) by (simp add: validate_favorites validate_updatedAt)
  from toggleFavorite_canonical [OF assms(1-3) c1 u1 v1, of env] obtain us2 where
    t2: "toggleFavorite env ?st1 i userId = (?st1\<lparr>users := us2\<rparr>, Response 200 (Favorite (oid \<notin> set (favorites ?u1))))"
    and f2: "find (\<lambda>u. u_id u = uoid) us2 = Some (?u1\<lparr>favorites := ?f2, u_updatedAt := now env\<rparr>)"
    by blast
  let ?u2 = "?u1\<lparr>favorites := ?f2, u_updatedAt := now env\<rparr>"
  have f2': "find (\<lambda>u. u_id u = uoid) (users (?st1\<lparr>users := us2\<rparr>)) = Some ?u2"
    using f2 by simp
  have s: "set (favorites ?u2) = set (favorites u)" "distinct (favorites ?u2)"
    using assms(6) by (auto simp: set_remove1_eq distinct_remove1)
  from t1 t2 f2' s show ?thesis by blast
qed

text \<open>The setters are idempotent, so what \<open>new User\<close> stores is normalised.\<close>

lemma isWhiteSpace_toLowerCaseChar: "isWhiteSpace (toLowerCaseChar c) = isWhiteSpace c"
  unfolding isWhiteSpace_def toLowerCaseChar_def Let_def
  by (auto simp: of_char_of)

lemma toLowerCaseChar_idem: "toLowerCaseChar (toLowerCaseChar c) = toLowerCaseChar c"
  unfolding toLowerCaseChar_def Let_def
  by (auto simp: of_char_of)

lemma toLowerCase_idem: "toLowerCase (toLowerCase s) = toLowerCase s"
  by (simp add: toLowerCase_def toLowerCaseChar_idem)

lemma trim_toLowerCase: "trim (toLowerCase s) = toLowerCase (trim s)"
  by (simp add: trim_def toLowerCase_def dropWhile_map rev_map o_def isWhiteSpace_toLowerCaseChar)

lemma dropWhile_rev_stable:
  assumes "dropWhile P xs = xs"
  shows "dropWhile P (rev (dropWhile P (rev xs))) = rev (dropWhile P (rev xs))"
proof (cases xs)
  case Nil
  then show ?thesis by simp
next
  case (Cons x xs')
  with assms have nx: "\<not> P x"
    using length_dropWhile_le [of P xs'] by (auto split: if_splits dest: arg_cong [where f = length])
  have "dropWhile P (rev xs) \<noteq> []" using Cons nx by (simp add: dropWhile_append)
  moreover have "last (dropWhile P (rev xs)) = x"
    using Cons nx by (simp add: dropWhile_append last_rev)
  ultimately obtain ys where "rev (dropWhile P (rev xs)) = x # ys"
    by (metis last_rev list.exhaust_sel rev_is_Nil_conv hd_rev)
  with nx show ?thesis by simp
qed

lemma trim_idem: "trim (trim s) = trim s"
proof -
  have a: "dropWhile isWhiteSpace (dropWhile isWhiteSpace s) = dropWhile isWhiteSpace s"
    by simp
  show ?thesis
    unfolding trim_def using dropWhile_rev_stable [OF a] by simp
qed

lemma setUsername_idem: "setUsername (setUsername v) = setUsername v"
  by (simp add: setUsername_def trim_idem)

lemma setEmail_idem: "setEmail (setEmail v) = setEmail v"
  by (simp add: setEmail_def trim_toLowerCase trim_idem toLowerCase_idem)

lemma save_newUser:
  assumes "save env st (newUser env n e p) = Inr st'"
  shows "\<exists>h. users st' = users st @ [(doc (newUser env n e p))\<lparr>password := h\<rparr>]"
proof -
  note sv = save_valid [OF save_Inr_valid [OF assms]]
  from assms [unfolded sv] show ?thesis
    by (auto simp: preSave_def newUser_def isModified_def split: sum.splits)
qed

text \<open>Registration and the favorites toggle keep a normalised store normalised.\<close>

lemma register_normalised:
  assumes "normalised st" and "register env st n e p = (st', r)"
  shows "normalised st'"
proof (cases "save env st (newUser env n e p)")
  case (Inl err)
  with assms show ?thesis by (auto simp: register_def split: option.splits)
next
  case (Inr st2)
  from save_newUser [OF Inr] obtain h where
    "users st2 = users st @ [(doc (newUser env n e p))\<lparr>password := h\<rparr>]" by blast
  with assms(1) have "normalised st2"
    by (simp add: normalised_def newUser_def setUsername_idem setEmail_idem)
  with assms Inr show ?thesis by (auto simp: register_def split: option.splits)
qed

lemma save_favorites_frame:
  assumes "\<not> isNew d" and "modifiedPaths d = [PFavorites]" and "save env st d = Inr st'"
    and g: "\<And>u f t. g (u\<lparr>favorites := f, u_updatedAt := t\<rparr>) = g u"
  shows "map g (users st') = map g (users st)"
proof -
  have a: "\<And>y. g (applyDelta d (now env) y) = g y"
    using assms(2) g by (simp add: applyDelta_favorites_only)
  from assms(1-3) save_favorites_only [OF assms(1,2) save_Inr_valid [OF assms(3)], of env st]
  show ?thesis
    by (auto split: option.splits dest: updateOne_map [where g = g, OF _ a])
qed

lemma toggleFavorite_frame:
  assumes "toggleFavorite env st i userId = (st', r)"
    and g: "\<And>u f t. g (u\<lparr>favorites := f, u_updatedAt := t\<rparr>) = g u"
  shows "map g (users st') = map g (users st)"
proof -
  have a: "\<And>u x st'. save env st (push (loaded u) x) = Inr st' \<Longrightarrow> map g (users st') = map g (users st)"
    using save_favorites_frame [of "push (loaded _) _" env st _ g] g by (simp add: push_loaded)
  have b: "\<And>u k st'. save env st (splice (loaded u) k) = Inr st' \<Longrightarrow> map g (users st') = map g (users st)"
    using save_favorites_frame [of "splice (loaded _) _" env st _ g] g by (simp add: splice_loaded)
  from assms(1) show ?thesis
    by (auto simp: toggleFavorite_def Let_def User_findById_def split: sum.splits option.splits if_splits dest: a b)
qed

lemma toggleFavorite_normalised:
  assumes "normalised st" and "toggleFavorite env st i userId = (st', r)"
  shows "normalised st'"
proof -
  have eq: "map (\<lambda>u. (username u, email u)) (users st') = map (\<lambda>u. (username u, email u)) (users st)"
    using toggleFavorite_frame [OF assms(2), of "\<lambda>u. (username u, email u)"] by simp
  have L: "\<And>us. list_all (\<lambda>u. username u = setUsername (username u) \<and> email u = setEmail (email u)) us
      = list_all (\<lambda>(n, e). n = setUsername n \<and> e = setEmail e) (map (\<lambda>u. (username u, email u)) us)"
    by (simp add: list_all_iff)
  from assms(1) have "list_all (\<lambda>(n, e). n = setUsername n \<and> e = setEmail e)
      (map (\<lambda>u. (username u, email u)) (users st))"
    unfolding normalised_def L .
  then have "list_all (\<lambda>(n, e). n = setUsername n \<and> e = setEmail e)
      (map (\<lambda>u. (username u, email u)) (users st'))"
    by (simp only: eq)
  then show ?thesis unfolding normalised_def L .
qed

text \<open>The identifiers and the users of the concrete store.\<close>

lemma alice_valid: "validate alice = []"
  by (simp add: validate_def alice_def)

lemma db0_normalised: "normalised db0"
  unfolding normalised_def db0_def alice_def setUsername_def setEmail_def by code_simp

lemma setEmail_upper: "setEmail ''ALICE@X.COM'' = ''alice@x.com''"
  unfolding setEmail_def by code_simp

lemma setEmail_bob: "setEmail ''bob@x.com'' = ''bob@x.com''"
  unfolding setEmail_def by code_simp

lemma setEmail_alice: "setEmail ''alice@x.com'' = ''alice@x.com''"
  unfolding setEmail_def by code_simp

lemma setUsername_bob: "setUsername ''bob'' = ''bob''"
  unfolding setUsername_def by code_simp


lemma idA_cast: "castObjectId idA = Some (ObjectId idA)"
  by (simp add: castObjectId_def idA_def isHexDigit_def lowerHex_def)

lemma idA_upper_cast: "castObjectId idA_upper = Some (ObjectId idA)"
  by (simp add: castObjectId_def idA_def idA_upper_def isHexDigit_def lowerHex_def)

lemma idB_cast: "castObjectId idB = Some (ObjectId idB)"
  by (simp add: castObjectId_def idB_def isHexDigit_def lowerHex_def)

lemma idC_cast: "castObjectId idC = Some (ObjectId idC)"
  by (simp add: castObjectId_def idC_def isHexDigit_def lowerHex_def)

lemma idU_cast: "castObjectId idU = Some (ObjectId idU)"
  by (simp add: castObjectId_def idU_def isHexDigit_def lowerHex_def)

lemma ids_distinct:
  "idA \<noteq> idB" "idA \<noteq> idC" "idB \<noteq> idC" "idU \<noteq> idA" "idU \<noteq> idB" "idU \<noteq> idC"
  "idB \<noteq> idA" "idC \<noteq> idA" "idC \<noteq> idB" "idA \<noteq> idU" "idB \<noteq> idU" "idC \<noteq> idU"
  by (simp_all add: idA_def idB_def idC_def idU_def)

lemma idA_upper_distinct: "idA_upper \<noteq> idA" "idA \<noteq> idA_upper"
  by (simp_all add: idA_def idA_upper_def)

text \<open>The gate on a request without an authorization header.\<close>

lemma authMiddleware_no_header: "authMiddleware verify None = Inl (401, NoToken)"
  by (simp add: authMiddleware_def bearerToken_def truthy_def)

lemma optionalAuthMiddleware_no_header: "optionalAuthMiddleware verify None = None"
  by (simp add: optionalAuthMiddleware_def bearerToken_def truthy_def)

section \<open>Registration and login: conflicts and failures\<close>

text \<open>
  C7: on a store whose user names and emails are as the schema's setters leave them,
  which is how registration stores them, a registration whose user name or email equals
  that of a stored user is answered with status 400 and the conflict message, and the
  store is returned as it was: no record is added. So is, on any store, a registration
  whose user name, trimmed, or whose email, trimmed and in lower case, equals that of a
  stored user.
\<close>

theorem register_conflict:
  "(normalised st \<and> (\<exists>u \<in> set (users st). username u = n \<or> email u = e)
      \<longrightarrow> register env st n e p = (st, Response 400 (Message NameOrEmailTaken))) \<and>
   ((\<exists>u \<in> set (users st). username u = setUsername n \<or> email u = setEmail e)
      \<longrightarrow> register env st n e p = (st, Response 400 (Message NameOrEmailTaken)))"
proof -
  have general: "register env st n e p = (st, Response 400 (Message NameOrEmailTaken))"
    if "\<exists>u \<in> set (users st). username u = setUsername n \<or> email u = setEmail e"
  proof -
    from that have "find (\<lambda>u. email u = setEmail e \<or> username u = setUsername n) (users st) \<noteq> None"
      by (auto simp: find_None_iff)
    then show ?thesis by (auto simp: register_def)
  qed
  have "\<exists>u \<in> set (users st). username u = setUsername n \<or> email u = setEmail e"
    if "normalised st" and "\<exists>u \<in> set (users st). username u = n \<or> email u = e"
    using that unfolding normalised_def list_all_iff by metis
  with general show ?thesis by blast
qed

text \<open>
  Against the concrete store: the user name alice once more, and the email of alice in
  capital letters.
\<close>

theorem register_conflict_witness:
  "normalised db0 \<and>
   (\<exists>u \<in> set (users db0). username u = ''alice'' \<or> email u = ''bob@x.com'') \<and>
   register env0 db0 ''alice'' ''bob@x.com'' ''secret2'' = (db0, Response 400 (Message NameOrEmailTaken)) \<and>
   (\<exists>u \<in> set (users db0). username u = setUsername ''bob'' \<or> email u = setEmail ''ALICE@X.COM'') \<and>
   register env0 db0 ''bob'' ''ALICE@X.COM'' ''secret2'' = (db0, Response 400 (Message NameOrEmailTaken))"
proof -
  have h: "\<exists>u \<in> set (users db0). username u = ''alice'' \<or> email u = ''bob@x.com''"
    by (simp add: db0_def alice_def)
  have k: "\<exists>u \<in> set (users db0). username u = setUsername ''bob'' \<or> email u = setEmail ''ALICE@X.COM''"
    by (simp add: db0_def alice_def setEmail_upper)
  from register_conflict [of db0 "''alice''" "''bob@x.com''" env0 "''secret2''"] db0_normalised h
  have w1: "register env0 db0 ''alice'' ''bob@x.com'' ''secret2'' = (db0, Response 400 (Message NameOrEmailTaken))"
    by blast
  from register_conflict [of db0 "''bob''" "''ALICE@X.COM''" env0 "''secret2''"] k
  have w2: "register env0 db0 ''bob'' ''ALICE@X.COM'' ''secret2'' = (db0, Response 400 (Message NameOrEmailTaken))"
    by blast
  from db0_normalised h k w1 w2 show ?thesis by blast
qed



section \<open>Catalog queries: identity, lookup, annotation, order\<close>

text \<open>
  C1, as the code has it: on a list query with no caller identity attached the
  favorites-only flag is ignored. The guard of the filter asks for the flag and an
  identity together, so the query is answered with status 200 and the very list the same
  query without the flag gets, no row carrying \<open>isFavorite\<close>; no 401 is signalled.
\<close>

theorem getComponents_anonymous_favorites_ignored:
  assumes "\<not> truthy userId"
  shows "getComponents env st q userId = getComponents env st (q\<lparr>q_favorites := None\<rparr>) userId \<and>
         (\<exists>rows. getComponents env st q userId = Response 200 (Components rows) \<and>
                 (\<forall>r \<in> set rows. isFavorite r = None))"
  using assms by (auto simp: getComponents_def Let_def listComponents_def populate_def)

text \<open>
  The anonymous favorites-only query on the concrete store: the response of the plain
  query, with both components and no annotation.
\<close>

theorem getComponents_anonymous_favorites_ignored_witness:
  "\<not> truthy None \<and>
   getComponents env0 db0 (anyQuery\<lparr>q_favorites := Some ''true''\<rparr>) None = getComponents env0 db0 anyQuery None \<and>
   getComponents env0 db0 anyQuery None = Response 200 (Components [populate db0 card, populate db0 btn]) \<and>
   isFavorite (populate db0 card) = None \<and> isFavorite (populate db0 btn) = None"
proof -
  have h: "\<not> truthy None" by (simp add: truthy_def)
  have q: "(anyQuery\<lparr>q_favorites := Some ''true''\<rparr>)\<lparr>q_favorites := None\<rparr> = anyQuery"
    by (simp add: anyQuery_def)
  have e: "getComponents env0 db0 anyQuery None = Response 200 (Components [populate db0 card, populate db0 btn])"
    by (simp add: getComponents_def listComponents_def Let_def truthy_def anyQuery_def Component_find_def
        matches_def db0_def btn_def card_def)
  from getComponents_anonymous_favorites_ignored [OF h, of env0 db0 "anyQuery\<lparr>q_favorites := Some ''true''\<rparr>"]
  have t: "getComponents env0 db0 (anyQuery\<lparr>q_favorites := Some ''true''\<rparr>) None = getComponents env0 db0 anyQuery None"
    and r: "\<exists>rows. getComponents env0 db0 (anyQuery\<lparr>q_favorites := Some ''true''\<rparr>) None = Response 200 (Components rows) \<and>
                 (\<forall>r \<in> set rows. isFavorite r = None)"
    unfolding q by blast+
  from r t e have "\<forall>r \<in> set [populate db0 card, populate db0 btn]. isFavorite r = None"
    by auto
  with h t e show ?thesis by simp
qed

text \<open>
  The statement with a 401 fails: a request without an authorization header passes the
  optional gate with no identity, and its favorites-only query on the concrete store is
  answered with status 200 and both components.
\<close>

theorem getComponents_anonymous_favorites_counterexample:
  "optionalAuthMiddleware Map.empty None = None \<and>
   q_favorites (anyQuery\<lparr>q_favorites := Some ''true''\<rparr>) = Some ''true'' \<and>
   getComponents env0 db0 (anyQuery\<lparr>q_favorites := Some ''true''\<rparr>) (optionalAuthMiddleware Map.empty None)
     = Response 200 (Components [populate db0 card, populate db0 btn]) \<and>
   status (getComponents env0 db0 (anyQuery\<lparr>q_favorites := Some ''true''\<rparr>) (optionalAuthMiddleware Map.empty None))
     \<noteq> 401"
  by (simp add: optionalAuthMiddleware_def bearerToken_def getComponents_def listComponents_def Let_def
        truthy_def anyQuery_def Component_find_def matches_def db0_def btn_def card_def)

text \<open>
  C2, as the code has it: a single-item lookup whose id is well formed (24 hexadecimal
  digits) and matches no stored component is answered with 404. An id that is not well
  formed never reaches the comparison: the cast of the store library fails, the handler
  forwards the error, and the error-handling middleware answers with status 500.
\<close>

theorem getComponent_missing:
  "(castObjectId i = Some oid \<and> find (\<lambda>c. c_id c = oid) (components st) = None
      \<longrightarrow> getComponent env st i userId = Response 404 (Message ComponentNotFound)) \<and>
   (castObjectId i = None
      \<longrightarrow> getComponent env st i userId = errorHandler (castError i ''Component'') \<and>
          status (getComponent env st i userId) = 500)"
  by (simp add: getComponent_def Component_findById_def errorHandler_def castError_def)

text \<open>A well-formed id of no component, and the id \<open>xyz\<close>, against the concrete store.\<close>

theorem getComponent_missing_witness:
  "castObjectId idC = Some (ObjectId idC) \<and> find (\<lambda>c. c_id c = ObjectId idC) (components db0) = None \<and>
   getComponent env0 db0 idC None = Response 404 (Message ComponentNotFound) \<and>
   castObjectId ''xyz'' = None \<and>
   status (getComponent env0 db0 ''xyz'' None) = 500"
proof -
  have a: "castObjectId idC = Some (ObjectId idC)"
    by (simp add: castObjectId_def idC_def isHexDigit_def lowerHex_def)
  have b: "find (\<lambda>c. c_id c = ObjectId idC) (components db0) = None"
    by (simp add: db0_def btn_def card_def idA_def idB_def idC_def)
  have c: "castObjectId ''xyz'' = None" by (simp add: castObjectId_def)
  from getComponent_missing [of idC "ObjectId idC" db0 env0 None] a b
  have d: "getComponent env0 db0 idC None = Response 404 (Message ComponentNotFound)" by blast
  from getComponent_missing [of "''xyz''" "ObjectId idC" db0 env0 None] c
  have e: "status (getComponent env0 db0 ''xyz'' None) = 500" by blast
  from a b c d e show ?thesis by blast
qed

text \<open>The statement with a 404 for a malformed id fails at the id \<open>xyz\<close>.\<close>

theorem getComponent_missing_counterexample:
  "castObjectId ''xyz'' = None \<and>
   getComponent env0 db0 ''xyz'' None
     = Response 500 (Message (ErrorText (CastToObjectIdFailed ''xyz'' ''Component''))) \<and>
   status (getComponent env0 db0 ''xyz'' None) \<noteq> 404"
  by (simp add: getComponent_def Component_findById_def castObjectId_def errorHandler_def castError_def)

text \<open>
  C5: a list query with the identity of an existing user U is answered with rows that each
  carry \<open>isFavorite\<close>, true exactly when the identifier of the row's component is in
  the favorites of U; a list query with no identity is answered with rows that carry no
  \<open>isFavorite\<close> field.
\<close>

theorem getComponents_isFavorite:
  "(castObjectId userId = Some uoid \<and> find (\<lambda>u. u_id u = uoid) (users st) = Some u
      \<longrightarrow> (\<exists>rows. getComponents env st q (Some userId) = Response 200 (Components rows) \<and>
                  (\<forall>r \<in> set rows. isFavorite r = Some (c_id (r_component r) \<in> set (favorites u))))) \<and>
   (\<exists>rows. getComponents env st q None = Response 200 (Components rows) \<and>
           (\<forall>r \<in> set rows. isFavorite r = None))"
proof (intro conjI impI)
  assume a: "castObjectId userId = Some uoid \<and> find (\<lambda>u. u_id u = uoid) (users st) = Some u"
  then have t: "truthy (Some userId)" by (auto simp: truthy_def dest: castObjectId_nonempty)
  from a t show "\<exists>rows. getComponents env st q (Some userId) = Response 200 (Components rows) \<and>
                  (\<forall>r \<in> set rows. isFavorite r = Some (c_id (r_component r) \<in> set (favorites u)))"
    by (auto simp: getComponents_def listComponents_def Let_def User_findById_def doc_loaded toString_eq_iff)
next
  show "\<exists>rows. getComponents env st q None = Response 200 (Components rows) \<and>
           (\<forall>r \<in> set rows. isFavorite r = None)"
    by (auto simp: getComponents_def listComponents_def Let_def truthy_def populate_def)
qed


text \<open>
  Alice, with \<open>Btn\<close> among her favorites, lists the concrete store: \<open>Card\<close> comes
  annotated false and \<open>Btn\<close> true.
\<close>

theorem getComponents_isFavorite_witness:
  "castObjectId idU = Some (ObjectId idU) \<and>
   find (\<lambda>u. u_id u = ObjectId idU) (users db1) = Some (alice\<lparr>favorites := [ObjectId idA]\<rparr>) \<and>
   getComponents env0 db1 anyQuery (Some idU)
     = Response 200 (Components [(populate db1 card)\<lparr>isFavorite := Some False\<rparr>,
                                 (populate db1 btn)\<lparr>isFavorite := Some True\<rparr>]) \<and>
   isFavorite ((populate db1 card)\<lparr>isFavorite := Some False\<rparr>) = Some (c_id card \<in> set [ObjectId idA]) \<and>
   isFavorite ((populate db1 btn)\<lparr>isFavorite := Some True\<rparr>) = Some (c_id btn \<in> set [ObjectId idA])"
proof -
  let ?rows = "[(populate db1 card)\<lparr>isFavorite := Some False\<rparr>, (populate db1 btn)\<lparr>isFavorite := Some True\<rparr>]"
  have b: "find (\<lambda>u. u_id u = ObjectId idU) (users db1) = Some (alice\<lparr>favorites := [ObjectId idA]\<rparr>)"
    by (simp add: db1_def alice_def)
  have e: "getComponents env0 db1 anyQuery (Some idU) = Response 200 (Components ?rows)"
    by (simp add: getComponents_def listComponents_def Let_def truthy_def anyQuery_def Component_find_def
        matches_def User_findById_def idU_cast doc_loaded db1_def alice_def btn_def card_def populate_def
        ids_distinct castObjectId_nonempty [OF idU_cast])
  from getComponents_isFavorite [of idU "ObjectId idU" db1 "alice\<lparr>favorites := [ObjectId idA]\<rparr>" env0 anyQuery]
    idU_cast b
  have "\<exists>rows. getComponents env0 db1 anyQuery (Some idU) = Response 200 (Components rows) \<and>
           (\<forall>r \<in> set rows. isFavorite r = Some (c_id (r_component r) \<in> set [ObjectId idA]))"
    by simp
  with e have "\<forall>r \<in> set ?rows. isFavorite r = Some (c_id (r_component r) \<in> set [ObjectId idA])"
    by auto
  then have "isFavorite ((populate db1 card)\<lparr>isFavorite := Some False\<rparr>) = Some (c_id card \<in> set [ObjectId idA])"
    and "isFavorite ((populate db1 btn)\<lparr>isFavorite := Some True\<rparr>) = Some (c_id btn \<in> set [ObjectId idA])"
    by (simp_all add: populate_def)
  with idU_cast b e show ?thesis by blast
qed

text \<open>
  C10: the rows of every answered list query are in ascending order of the component
  names when the sort key is \<open>name\<close>, and in descending order of the creation times
  for every other sort key, the absent one and \<open>popular\<close> included.
\<close>

theorem getComponents_sorted:
  assumes "getComponents env st q userId = Response 200 (Components rows)"
  shows "(q_sort q = Some ''name'' \<longrightarrow> sorted (map name (map r_component rows))) \<and>
         (q_sort q \<noteq> Some ''name'' \<longrightarrow> sorted_wrt (\<lambda>a b. b \<le> a) (map c_createdAt (map r_component rows)))"
proof -
  from getComponents_rows [OF assms] obtain query where
    r: "map r_component rows
         = Component_find env st query (if q_sort q = Some ''name'' then NameAscending else CreatedAtDescending)"
    by blast
  show ?thesis
  proof (cases "q_sort q = Some ''name''")
    case True
    with r show ?thesis by (simp add: Component_find_def)
  next
    case False
    with r have "map r_component rows = sort_key (\<lambda>c. - c_createdAt c) (filter (matches env query) (components st))"
      by (simp add: Component_find_def)
    then show ?thesis using False sorted_negated [of c_createdAt "map r_component rows"] by simp
  qed
qed

text \<open>The concrete store by name, and under the key \<open>popular\<close>.\<close>

theorem getComponents_sorted_witness:
  "getComponents env0 db0 (anyQuery\<lparr>q_sort := Some ''name''\<rparr>) None
     = Response 200 (Components [populate db0 btn, populate db0 card]) \<and>
   sorted (map name (map r_component [populate db0 btn, populate db0 card])) \<and>
   getComponents env0 db0 (anyQuery\<lparr>q_sort := Some ''popular''\<rparr>) None
     = Response 200 (Components [populate db0 card, populate db0 btn]) \<and>
   sorted_wrt (\<lambda>a b. b \<le> a) (map c_createdAt (map r_component [populate db0 card, populate db0 btn]))"
proof -
  have a: "getComponents env0 db0 (anyQuery\<lparr>q_sort := Some ''name''\<rparr>) None
     = Response 200 (Components [populate db0 btn, populate db0 card])"
    by (simp add: getComponents_def listComponents_def Let_def truthy_def anyQuery_def Component_find_def
        matches_def db0_def btn_def card_def)
  have b: "getComponents env0 db0 (anyQuery\<lparr>q_sort := Some ''popular''\<rparr>) None
     = Response 200 (Components [populate db0 card, populate db0 btn])"
    by (simp add: getComponents_def listComponents_def Let_def truthy_def anyQuery_def Component_find_def
        matches_def db0_def btn_def card_def)
  from getComponents_sorted [OF a]
  have c: "sorted (map name (map r_component [populate db0 btn, populate db0 card]))" by simp
  from getComponents_sorted [OF b]
  have d: "sorted_wrt (\<lambda>a b. b \<le> a) (map c_createdAt (map r_component [populate db0 card, populate db0 btn]))"
    by simp
  from a b c d show ?thesis by blast
qed

section \<open>Favorites toggle: results, duplicates, double toggle\<close>

text \<open>
  C3, as the code has it: the toggle, given a target id in the form the store prints (24
  hexadecimal digits, letters in lower case) and a well-formed caller identity, answers
  404 when no component has the id and 404 when the identity resolves to no user, the
  store unchanged in both cases; otherwise, for a caller whose stored record passes the
  validators of the user schema, the id is appended to the caller's favorites and true
  is returned when it was not among them, and its first occurrence is removed and false
  is returned when it was; on favorites free of duplicates the returned boolean is the
  membership after the call. Two inputs are answered with status 500 by the
  error-handling middleware, the store unchanged: a target id that is not 24 hexadecimal
  digits, on which the cast of the store library fails, and a caller whose stored record
  fails a validator, on which the save fails.
\<close>

theorem toggleFavorite_by_design:
  "(castObjectId i = None
      \<longrightarrow> toggleFavorite env st i userId = (st, errorHandler (castError i ''Component'')) \<and>
          status (snd (toggleFavorite env st i userId)) = 500) \<and>
   (castObjectId i = Some oid \<and> find (\<lambda>c. c_id c = oid) (components st) = None
      \<longrightarrow> toggleFavorite env st i userId = (st, Response 404 (Message ComponentNotFound))) \<and>
   (castObjectId i = Some oid \<and> find (\<lambda>c. c_id c = oid) (components st) = Some c \<and>
    castObjectId userId = Some uoid \<and> find (\<lambda>u. u_id u = uoid) (users st) = None
      \<longrightarrow> toggleFavorite env st i userId = (st, Response 404 (Message UserNotFound))) \<and>
   (castObjectId i = Some oid \<and> toString oid = i \<and> find (\<lambda>c. c_id c = oid) (components st) = Some c \<and>
    castObjectId userId = Some uoid \<and> find (\<lambda>u. u_id u = uoid) (users st) = Some u \<and> validate u = []
      \<longrightarrow> (\<exists>us u'. toggleFavorite env st i userId
                       = (st\<lparr>users := us\<rparr>, Response 200 (Favorite (oid \<notin> set (favorites u)))) \<and>
                  find (\<lambda>u. u_id u = uoid) us = Some u' \<and>
                  favorites u' = (if oid \<in> set (favorites u) then remove1 oid (favorites u)
                                  else favorites u @ [oid]) \<and>
                  (distinct (favorites u) \<longrightarrow> (oid \<in> set (favorites u') \<longleftrightarrow> oid \<notin> set (favorites u))))) \<and>
   (castObjectId i = Some oid \<and> find (\<lambda>c. c_id c = oid) (components st) = Some c \<and>
    castObjectId userId = Some uoid \<and> find (\<lambda>u. u_id u = uoid) (users st) = Some u \<and> validate u \<noteq> []
      \<longrightarrow> toggleFavorite env st i userId = (st, errorHandler (validationError (validate u))) \<and>
          status (snd (toggleFavorite env st i userId)) = 500)"
proof (intro conjI impI)
  assume "castObjectId i = None"
  then show "toggleFavorite env st i userId = (st, errorHandler (castError i ''Component''))"
    and "status (snd (toggleFavorite env st i userId)) = 500"
    by (simp_all add: toggleFavorite_def Component_findById_def errorHandler_def castError_def)
next
  assume "castObjectId i = Some oid \<and> find (\<lambda>c. c_id c = oid) (components st) = None"
  then show "toggleFavorite env st i userId = (st, Response 404 (Message ComponentNotFound))"
    by (simp add: toggleFavorite_def Component_findById_def)
next
  assume "castObjectId i = Some oid \<and> find (\<lambda>c. c_id c = oid) (components st) = Some c \<and>
    castObjectId userId = Some uoid \<and> find (\<lambda>u. u_id u = uoid) (users st) = None"
  then show "toggleFavorite env st i userId = (st, Response 404 (Message UserNotFound))"
    by (simp add: toggleFavorite_def Component_findById_def User_findById_def)
next
  assume a: "castObjectId i = Some oid \<and> toString oid = i \<and> find (\<lambda>c. c_id c = oid) (components st) = Some c \<and>
    castObjectId userId = Some uoid \<and> find (\<lambda>u. u_id u = uoid) (users st) = Some u \<and> validate u = []"
  then obtain us where
    us: "toggleFavorite env st i userId = (st\<lparr>users := us\<rparr>, Response 200 (Favorite (oid \<notin> set (favorites u))))"
        "find (\<lambda>u. u_id u = uoid) us
           = Some (u\<lparr>favorites := (if oid \<in> set (favorites u) then remove1 oid (favorites u)
                                    else favorites u @ [oid]),
                     u_updatedAt := now env\<rparr>)"
    using toggleFavorite_canonical [of i oid userId uoid st c u env] by blast
  then show "\<exists>us u'. toggleFavorite env st i userId
                       = (st\<lparr>users := us\<rparr>, Response 200 (Favorite (oid \<notin> set (favorites u)))) \<and>
                  find (\<lambda>u. u_id u = uoid) us = Some u' \<and>
                  favorites u' = (if oid \<in> set (favorites u) then remove1 oid (favorites u)
                                  else favorites u @ [oid]) \<and>
                  (distinct (favorites u) \<longrightarrow> (oid \<in> set (favorites u') \<longleftrightarrow> oid \<notin> set (favorites u)))"
    by (intro exI [of _ us] exI [of _ "u\<lparr>favorites := (if oid \<in> set (favorites u) then remove1 oid (favorites u)
                                    else favorites u @ [oid]), u_updatedAt := now env\<rparr>"]) simp
next
  assume b: "castObjectId i = Some oid \<and> find (\<lambda>c. c_id c = oid) (components st) = Some c \<and>
    castObjectId userId = Some uoid \<and> find (\<lambda>u. u_id u = uoid) (users st) = Some u \<and> validate u \<noteq> []"
  then have p: "save env st (push (loaded u) oid) = Inl (validationError (validate u))"
    using save_invalid [of "push (loaded u) oid" env st] by (simp add: push_loaded validate_favorites)
  from b have q: "\<And>k. save env st (splice (loaded u) k) = Inl (validationError (validate u))"
    using save_invalid [of "splice (loaded u) _" env st] by (simp add: splice_loaded validate_favorites)
  from b p q show t: "toggleFavorite env st i userId = (st, errorHandler (validationError (validate u)))"
    by (simp add: toggleFavorite_def Component_findById_def User_findById_def Let_def doc_loaded)
  show "status (snd (toggleFavorite env st i userId)) = 500"
    unfolding t by (simp add: errorHandler_def validationError_def)
qed

text \<open>
  On the concrete store: the id \<open>xyz\<close>, the id of no component, the identity of no
  user, alice making \<open>Btn\<close> a favorite, alice removing it again, and alice under the
  name \<open>ab\<close>.
\<close>

theorem toggleFavorite_by_design_witness:
  "toggleFavorite env0 db0 ''xyz'' idU = (db0, errorHandler (castError ''xyz'' ''Component'')) \<and>
   status (snd (toggleFavorite env0 db0 ''xyz'' idU)) = 500 \<and>
   toggleFavorite env0 db0 idC idU = (db0, Response 404 (Message ComponentNotFound)) \<and>
   toggleFavorite env0 db0 idA idB = (db0, Response 404 (Message UserNotFound)) \<and>
   (\<exists>us u'. toggleFavorite env0 db0 idA idU = (db0\<lparr>users := us\<rparr>, Response 200 (Favorite True)) \<and>
       find (\<lambda>u. u_id u = ObjectId idU) us = Some u' \<and> favorites u' = [ObjectId idA] \<and>
       ObjectId idA \<in> set (favorites u')) \<and>
   (\<exists>us u'. toggleFavorite env0 db1 idA idU = (db1\<lparr>users := us\<rparr>, Response 200 (Favorite False)) \<and>
       find (\<lambda>u. u_id u = ObjectId idU) us = Some u' \<and> favorites u' = [] \<and>
       ObjectId idA \<notin> set (favorites u')) \<and>
   validate (alice\<lparr>username := ''ab''\<rparr>) = [(PUsername, MinLength)] \<and>
   toggleFavorite env0 db2 idA idU = (db2, errorHandler (validationError [(PUsername, MinLength)])) \<and>
   status (snd (toggleFavorite env0 db2 idA idU)) = 500"
proof -
  have x: "castObjectId ''xyz'' = None" by (simp add: castObjectId_def)
  have c0: "find (\<lambda>c. c_id c = ObjectId idC) (components db0) = None"
    by (simp add: db0_def btn_def card_def ids_distinct)
  have cA0: "find (\<lambda>c. c_id c = ObjectId idA) (components db0) = Some btn"
    by (simp add: db0_def btn_def)
  have cA1: "find (\<lambda>c. c_id c = ObjectId idA) (components db1) = Some btn"
    by (simp add: db1_def btn_def)
  have uB: "find (\<lambda>u. u_id u = ObjectId idB) (users db0) = None"
    by (simp add: db0_def alice_def ids_distinct)
  have u0: "find (\<lambda>u. u_id u = ObjectId idU) (users db0) = Some alice"
    by (simp add: db0_def alice_def)
  have u1: "find (\<lambda>u. u_id u = ObjectId idU) (users db1) = Some (alice\<lparr>favorites := [ObjectId idA]\<rparr>)"
    by (simp add: db1_def alice_def)
  have fa: "favorites alice = []" by (simp add: alice_def)
  have cA2: "find (\<lambda>c. c_id c = ObjectId idA) (components db2) = Some btn"
    by (simp add: db2_def btn_def)
  have u2: "find (\<lambda>u. u_id u = ObjectId idU) (users db2) = Some (alice\<lparr>username := ''ab''\<rparr>)"
    by (simp add: db2_def alice_def)
  have v1: "validate (alice\<lparr>favorites := [ObjectId idA]\<rparr>) = []"
    by (simp add: validate_favorites alice_valid)
  have v2: "validate (alice\<lparr>username := ''ab''\<rparr>) = [(PUsername, MinLength)]"
    by (simp add: validate_def alice_def)
  from toggleFavorite_by_design [where i = "''xyz''" and env = env0 and st = db0 and userId = idU] x
  have w1: "toggleFavorite env0 db0 ''xyz'' idU = (db0, errorHandler (castError ''xyz'' ''Component'')) \<and>
            status (snd (toggleFavorite env0 db0 ''xyz'' idU)) = 500"
    by blast
  from toggleFavorite_by_design [where i = idC and oid = "ObjectId idC" and env = env0 and st = db0 and userId = idU]
    idC_cast c0
  have w2: "toggleFavorite env0 db0 idC idU = (db0, Response 404 (Message ComponentNotFound))"
    by blast
  from toggleFavorite_by_design [where i = idA and oid = "ObjectId idA" and env = env0 and st = db0
      and userId = idB and uoid = "ObjectId idB" and c = btn] idA_cast idB_cast cA0 uB
  have w3: "toggleFavorite env0 db0 idA idB = (db0, Response 404 (Message UserNotFound))"
    by blast
  from toggleFavorite_by_design [where i = idA and oid = "ObjectId idA" and env = env0 and st = db0
      and userId = idU and uoid = "ObjectId idU" and c = btn and u = alice] idA_cast idU_cast cA0 u0 alice_valid
  have w4: "\<exists>us u'. toggleFavorite env0 db0 idA idU = (db0\<lparr>users := us\<rparr>, Response 200 (Favorite True)) \<and>
       find (\<lambda>u. u_id u = ObjectId idU) us = Some u' \<and> favorites u' = [ObjectId idA] \<and>
       ObjectId idA \<in> set (favorites u')"
    by (auto simp: fa)
  from toggleFavorite_by_design [where i = idA and oid = "ObjectId idA" and env = env0 and st = db1
      and userId = idU and uoid = "ObjectId idU" and c = btn and u = "alice\<lparr>favorites := [ObjectId idA]\<rparr>"]
    idA_cast idU_cast cA1 u1 v1
  have w5: "\<exists>us u'. toggleFavorite env0 db1 idA idU = (db1\<lparr>users := us\<rparr>, Response 200 (Favorite False)) \<and>
       find (\<lambda>u. u_id u = ObjectId idU) us = Some u' \<and> favorites u' = [] \<and>
       ObjectId idA \<notin> set (favorites u')"
    by auto
  from toggleFavorite_by_design [where i = idA and oid = "ObjectId idA" and env = env0 and st = db2
      and userId = idU and uoid = "ObjectId idU" and c = btn and u = "alice\<lparr>username := ''ab''\<rparr>"]
    idA_cast idU_cast cA2 u2 v2
  have w6: "toggleFavorite env0 db2 idA idU = (db2, errorHandler (validationError [(PUsername, MinLength)])) \<and>
            status (snd (toggleFavorite env0 db2 idA idU)) = 500"
    by (simp add: errorHandler_def validationError_def)
  from w1 w2 w3 w4 w5 v2 w6 show ?thesis by blast
qed

text \<open>
  The statement with a 404 whenever no component has the id fails at the id \<open>xyz\<close>,
  which no component of the concrete store prints: the answer is status 500.
\<close>

theorem toggleFavorite_malformed_counterexample:
  "''xyz'' \<notin> set (map toString (map c_id (components db0))) \<and>
   toggleFavorite env0 db0 ''xyz'' idU
     = (db0, Response 500 (Message (ErrorText (CastToObjectIdFailed ''xyz'' ''Component'')))) \<and>
   status (snd (toggleFavorite env0 db0 ''xyz'' idU)) \<noteq> 404"
  by (simp add: toggleFavorite_def Component_findById_def castObjectId_def errorHandler_def castError_def
        db0_def btn_def card_def idA_def idB_def)

text \<open>
  C6 fails on the code. Alice has \<open>Btn\<close> among her favorites, once. She toggles it by
  its id written in upper case: the store finds the component, since the cast accepts
  either case, but the membership test compares the printed lower-case form of each
  favorite with the raw parameter, finds nothing, and the reference is appended a second
  time. The toggle did not preserve duplicate-freeness.
\<close>

theorem toggleFavorite_duplicate_entry:
  "distinct (favorites (alice\<lparr>favorites := [ObjectId idA]\<rparr>)) \<and>
   toggleFavorite env0 db1 idA_upper idU
     = (db1\<lparr>users := [alice\<lparr>favorites := [ObjectId idA, ObjectId idA], u_updatedAt := 100\<rparr>]\<rparr>,
        Response 200 (Favorite True)) \<and>
   \<not> distinct [ObjectId idA, ObjectId idA]"
  by (simp add: toggleFavorite_def Component_findById_def User_findById_def idA_upper_cast idU_cast
        db1_def alice_def btn_def card_def env0_def ids_distinct idA_upper_distinct doc_loaded Let_def
        push_loaded save_favorites_only applyDelta_favorites_only validate_def)

text \<open>
  C4 fails on the code, by the same comparison. Alice has no favorites; she toggles
  \<open>Btn\<close> twice by its id written in upper case. Both calls append and return true:
  \<open>Btn\<close> was not a favorite before and is one after the second call.
\<close>

theorem toggleFavorite_twice_not_restored:
  "toggleFavorite env0 db0 idA_upper idU
     = (db0\<lparr>users := [alice\<lparr>favorites := [ObjectId idA], u_updatedAt := 100\<rparr>]\<rparr>,
        Response 200 (Favorite True)) \<and>
   toggleFavorite env0 (db0\<lparr>users := [alice\<lparr>favorites := [ObjectId idA], u_updatedAt := 100\<rparr>]\<rparr>) idA_upper idU
     = (db0\<lparr>users := [alice\<lparr>favorites := [ObjectId idA, ObjectId idA], u_updatedAt := 100\<rparr>]\<rparr>,
        Response 200 (Favorite True)) \<and>
   c_id btn = ObjectId idA \<and> c_id btn \<notin> set (favorites alice) \<and>
   c_id btn \<in> set [ObjectId idA, ObjectId idA]"
  by (simp add: toggleFavorite_def Component_findById_def User_findById_def idA_upper_cast idU_cast
        db0_def alice_def btn_def card_def env0_def ids_distinct idA_upper_distinct doc_loaded Let_def
        push_loaded save_favorites_only applyDelta_favorites_only validate_def)

section \<open>The stored password hash\<close>

text \<open>
  C9: a save of a user document whose password path is not modified leaves every stored
  password hash as it was (a new document adds its own); so does every call of the
  favorites toggle, whatever it answers; and a successful save of a document whose
  password path is modified stores the hash that bcrypt computed from the document's
  password and the drawn salt.
\<close>

theorem password_hash_frame:
  "(\<not> isModified d PPassword \<and> save env st d = Inr st'
      \<longrightarrow> map password (users st')
           = map password (users st) @ (if isNew d then [password (doc d)] else [])) \<and>
   (toggleFavorite env st i userId = (st'', r)
      \<longrightarrow> map password (users st'') = map password (users st)) \<and>
   (isModified d PPassword \<and> save env st d = Inr st'
      \<longrightarrow> (\<exists>h. bcryptHash env (password (doc d)) (genSalt env) = Inr h \<and>
               (if isNew d then map password (users st') = map password (users st) @ [h]
                else (\<exists>u'. find (\<lambda>u. u_id u = u_id (doc d)) (users st') = Some u' \<and> password u' = h))))"
  using save_unmodified_password [of d env st st'] toggleFavorite_password_frame [of env st i userId st'' r]
    save_modified_password [of d env st st']
  by blast

text \<open>
  On the concrete store: the save of alice's document after a push to her favorites, the
  toggle that performs it, and the save of a new user bob.
\<close>

theorem password_hash_frame_witness:
  "\<not> isModified (push (loaded alice) (ObjectId idA)) PPassword \<and>
   save env0 db0 (push (loaded alice) (ObjectId idA))
     = Inr (db0\<lparr>users := [alice\<lparr>favorites := [ObjectId idA], u_updatedAt := 100\<rparr>]\<rparr>) \<and>
   map password (users (db0\<lparr>users := [alice\<lparr>favorites := [ObjectId idA], u_updatedAt := 100\<rparr>]\<rparr>))
     = map password (users db0) \<and>
   toggleFavorite env0 db0 idA idU
     = (db0\<lparr>users := [alice\<lparr>favorites := [ObjectId idA], u_updatedAt := 100\<rparr>]\<rparr>, Response 200 (Favorite True)) \<and>
   isModified (newUser env0 ''bob'' ''bob@x.com'' ''secret2'') PPassword \<and>
   save env0 db0 (newUser env0 ''bob'' ''bob@x.com'' ''secret2'')
     = Inr (db0\<lparr>users := [alice, doc (newUser env0 ''bob'' ''bob@x.com'' ''saltsecret2'')]\<rparr>) \<and>
   map password (users (db0\<lparr>users := [alice, doc (newUser env0 ''bob'' ''bob@x.com'' ''saltsecret2'')]\<rparr>))
     = map password (users db0) @ [''saltsecret2'']"
proof -
  let ?d = "push (loaded alice) (ObjectId idA)"
  let ?st' = "db0\<lparr>users := [alice\<lparr>favorites := [ObjectId idA], u_updatedAt := 100\<rparr>]\<rparr>"
  let ?n = "newUser env0 ''bob'' ''bob@x.com'' ''secret2''"
  let ?st2 = "db0\<lparr>users := [alice, doc (newUser env0 ''bob'' ''bob@x.com'' ''saltsecret2'')]\<rparr>"
  have a: "\<not> isModified ?d PPassword" by (simp add: push_loaded isModified_def)
  have b: "save env0 db0 ?d = Inr ?st'"
    by (simp add: push_loaded save_favorites_only applyDelta_favorites_only db0_def alice_def env0_def
        validate_def)
  have t: "toggleFavorite env0 db0 idA idU = (?st', Response 200 (Favorite True))"
    by (simp add: toggleFavorite_def Component_findById_def User_findById_def idA_cast idU_cast
        db0_def alice_def btn_def card_def env0_def ids_distinct doc_loaded Let_def
        push_loaded save_favorites_only applyDelta_favorites_only validate_def)
  have m: "isModified ?n PPassword" by (simp add: newUser_def isModified_def)
  have s: "save env0 db0 ?n = Inr ?st2"
    by (simp add: save_def preSave_def isModified_def newUser_def env0_def db0_def validate_def
        setUsername_bob setEmail_bob)
  from password_hash_frame [of ?d env0 db0 ?st'] a b
  have w1: "map password (users ?st') = map password (users db0)"
    by (simp add: push_loaded)
  from password_hash_frame [of _ env0 db0 _ idA idU ?st' "Response 200 (Favorite True)"] t
  have w2: "map password (users ?st') = map password (users db0)"
    by blast
  from password_hash_frame [of ?n env0 db0 ?st2] m s
  have w3: "map password (users ?st2) = map password (users db0) @ [''saltsecret2'']"
    by (simp add: newUser_def env0_def)
  from a b t m s w1 w3 show ?thesis by blast
qed

end
